theory Spec2Isabelle
  imports Complex_Main
begin

section \<open>Tornado simulator: the simulation core of \<open>tornado_simulator.py\<close>\<close>

text \<open>
  Python floats are modelled as real numbers, without infinity and NaN. The arithmetic of
  the particles, of the radius profile and of the random module is exact. The arithmetic
  of \<open>Debris.update\<close> is the arithmetic of doubles: every operation is rounded to the
  nearest double, since the removal of debris depends on a lifetime that is decremented
  frame after frame. Python ints are \<open>int\<close>. The rendering calls into pygame (surfaces,
  fonts, drawing) are not part of the model; the model covers the configuration constants,
  the particle and debris classes, the radius profile, and the simulator's constructor
  state, event handling and update pass.
\<close>

subsection \<open>Python primitives used by the module\<close>

datatype py_error = ZeroDivisionError | TypeError | IndexError | KeyError | ValueError

text \<open>\<open>int(x)\<close> on a float truncates toward zero.\<close>

definition py_int :: "real \<Rightarrow> int" where
  "py_int v = (if v < 0 then \<lceil>v\<rceil> else \<lfloor>v\<rfloor>)"

text \<open>
  The result of float arithmetic is a float, or a complex number once \<open>**\<close> has produced
  one. The value of a complex result is not tracked: the module only ever passes it on
  through \<open>*\<close> and \<open>+\<close> (which keep it complex) and then hands it to \<open>int()\<close>, which
  raises \<open>TypeError\<close>.
\<close>

datatype py_num = PyFloat real | PyComplex

text \<open>
  \<open>a ** b\<close> on floats: anything to the power \<open>0.0\<close> is \<open>1.0\<close>; zero to a negative
  power raises; a negative base with a non-integral exponent gives a complex number.
\<close>

definition float_pow :: "real \<Rightarrow> real \<Rightarrow> py_error + py_num" where
  "float_pow a b =
     (if b = 0 then Inr (PyFloat 1)
      else if a = 0 then (if b < 0 then Inl ZeroDivisionError else Inr (PyFloat 0))
      else if 0 < a then Inr (PyFloat (a powr b))
      else if of_int \<lfloor>b\<rfloor> = b then Inr (PyFloat (a powi \<lfloor>b\<rfloor>))
      else Inr PyComplex)"

text \<open>\<open>float * num\<close> and \<open>int + num\<close>, where the right operand may already be complex.\<close>

definition num_scale :: "real \<Rightarrow> py_num \<Rightarrow> py_num" where
  "num_scale c v = (case v of PyFloat r \<Rightarrow> PyFloat (c * r) | PyComplex \<Rightarrow> PyComplex)"

definition num_shift :: "real \<Rightarrow> py_num \<Rightarrow> py_num" where
  "num_shift c v = (case v of PyFloat r \<Rightarrow> PyFloat (c + r) | PyComplex \<Rightarrow> PyComplex)"

definition num_int :: "py_num \<Rightarrow> py_error + int" where
  "num_int v = (case v of PyFloat r \<Rightarrow> Inr (py_int r) | PyComplex \<Rightarrow> Inl TypeError)"

text \<open>
  Rounding to the nearest double (IEEE 754 binary64, ties to the even significand): a
  value in the binade \<open>[2^e, 2^(e+1))\<close> is rounded to a multiple of \<open>2^(e-52)\<close>, and below
  \<open>2^(-1022)\<close> to a multiple of \<open>2^(-1074)\<close>. Results of magnitude \<open>2^1024\<close> and more,
  which a double turns into infinity, are outside the model.
\<close>

definition round_half_even :: "real \<Rightarrow> int" where
  "round_half_even v =
     (if v - of_int \<lfloor>v\<rfloor> < 1/2 then \<lfloor>v\<rfloor>
      else if 1/2 < v - of_int \<lfloor>v\<rfloor> then \<lfloor>v\<rfloor> + 1
      else if even \<lfloor>v\<rfloor> then \<lfloor>v\<rfloor> else \<lfloor>v\<rfloor> + 1)"

definition double_ulp :: "real \<Rightarrow> real" where
  "double_ulp v = 2 powi (max \<lfloor>log 2 \<bar>v\<bar>\<rfloor> (- 1022) - 52)"

definition round_double :: "real \<Rightarrow> real" where
  "round_double v =
     (if v = 0 then 0 else double_ulp v * of_int (round_half_even (v / double_ulp v)))"

text \<open>\<open>a + b\<close>, \<open>a - b\<close> and \<open>a * b\<close> on doubles.\<close>

definition float_add :: "real \<Rightarrow> real \<Rightarrow> real" where
  "float_add a b = round_double (a + b)"

definition float_sub :: "real \<Rightarrow> real \<Rightarrow> real" where
  "float_sub a b = round_double (a - b)"

definition float_mul :: "real \<Rightarrow> real \<Rightarrow> real" where
  "float_mul a b = round_double (a * b)"

text \<open>
  The module-global state of \<open>random\<close> is the stream of values that successive calls of
  \<open>random.random()\<close> will return; each of them lies in \<open>[0, 1)\<close>.
  \<open>random.uniform(a, b)\<close> is \<open>a + (b - a) * random.random()\<close>.
\<close>

type_synonym rng = "nat \<Rightarrow> real"

definition unit_draws :: "rng \<Rightarrow> bool" where
  "unit_draws g \<longleftrightarrow> (\<forall>n. 0 \<le> g n \<and> g n < 1)"

definition random_random :: "rng \<Rightarrow> real \<times> rng" where
  "random_random g = (g 0, \<lambda>n. g (Suc n))"

definition random_uniform :: "real \<Rightarrow> real \<Rightarrow> rng \<Rightarrow> real \<times> rng" where
  "random_uniform a b g = (case random_random g of (u, g') \<Rightarrow> (a + (b - a) * u, g'))"

definition math_tau :: real where
  "math_tau = 2 * pi"

subsection \<open>Configuration\<close>

definition WIDTH :: int where "WIDTH = 960"
definition HEIGHT :: int where "HEIGHT = 720"
definition FPS :: int where "FPS = 60"

definition CENTER_X :: int where
  "CENTER_X = WIDTH div 2"

definition GROUND_Y :: int where
  "GROUND_Y = py_int (of_int HEIGHT * 0.85)"

definition MAX_TORNADO_HEIGHT :: int where
  "MAX_TORNADO_HEIGHT = py_int (of_int HEIGHT * 0.75)"

definition PARTICLES_PER_LEVEL :: nat where
  "PARTICLES_PER_LEVEL = 220"

text \<open>The inner dictionaries of \<open>EF_LEVELS\<close> all have the same five keys: a record.\<close>

record level =
  swirl :: real
  lift :: real
  base_radius :: real
  debris :: real
  color :: "int \<times> int \<times> int"

text \<open>A dict keeps insertion order, so \<open>EF_LEVELS\<close> is an association list.\<close>

definition EF_LEVELS :: "(string \<times> level) list" where
  "EF_LEVELS =
    [(''EF0'', \<lparr>swirl = 1.2, lift = 120.0, base_radius = 130.0, debris = 0.12, color = (180, 200, 220)\<rparr>),
     (''EF1'', \<lparr>swirl = 1.6, lift = 160.0, base_radius = 155.0, debris = 0.18, color = (190, 210, 230)\<rparr>),
     (''EF2'', \<lparr>swirl = 2.2, lift = 200.0, base_radius = 180.0, debris = 0.26, color = (210, 220, 230)\<rparr>),
     (''EF3'', \<lparr>swirl = 2.9, lift = 240.0, base_radius = 210.0, debris = 0.35, color = (230, 230, 235)\<rparr>),
     (''EF4'', \<lparr>swirl = 3.6, lift = 300.0, base_radius = 240.0, debris = 0.47, color = (245, 240, 230)\<rparr>),
     (''EF5'', \<lparr>swirl = 4.5, lift = 360.0, base_radius = 280.0, debris = 0.60, color = (255, 250, 220)\<rparr>)]"

text \<open>\<open>d[k]\<close> on a dict and \<open>xs[i]\<close> on a list (negative indices count from the end).\<close>

definition dict_get :: "('k \<times> 'v) list \<Rightarrow> 'k \<Rightarrow> py_error + 'v" where
  "dict_get d k = (case map_of d k of None \<Rightarrow> Inl KeyError | Some v \<Rightarrow> Inr v)"

definition list_get :: "'a list \<Rightarrow> int \<Rightarrow> py_error + 'a" where
  "list_get xs i =
     (if 0 \<le> i \<and> i < int (length xs) then Inr (xs ! nat i)
      else if i < 0 \<and> - int (length xs) \<le> i then Inr (xs ! nat (int (length xs) + i))
      else Inl IndexError)"

subsection \<open>The radius profile\<close>

definition lerp_radius :: "real \<Rightarrow> real \<Rightarrow> real \<Rightarrow> py_error + py_num" where
  "lerp_radius seed base_r height_ratio =
     (let neck_ratio = 0.05 + 0.35 * (1 - seed)
      in case float_pow (1 - height_ratio) (0.4 + neck_ratio) of
           Inl e \<Rightarrow> Inl e
         | Inr pw \<Rightarrow>
             (let width = num_scale base_r pw
              in Inr (num_scale (0.6 + 0.4 * seed) width)))"

subsection \<open>Particles\<close>

record Particle =
  radius_seed :: real
  altitude :: real
  angle :: real
  swirl_variation :: real
  brightness :: real

text \<open>\<open>Particle.random\<close>: the keyword arguments are evaluated in the order written.\<close>

definition Particle_random :: "rng \<Rightarrow> Particle \<times> rng" where
  "Particle_random g =
     (case random_uniform 0.2 1.0 g of (rs, g1) \<Rightarrow>
      case random_uniform 0.0 (of_int MAX_TORNADO_HEIGHT) g1 of (al, g2) \<Rightarrow>
      case random_uniform 0.0 math_tau g2 of (an, g3) \<Rightarrow>
      case random_uniform 0.6 1.4 g3 of (sv, g4) \<Rightarrow>
      case random_uniform 0.5 1.0 g4 of (br, g5) \<Rightarrow>
        (\<lparr>radius_seed = rs, altitude = al, angle = an, swirl_variation = sv, brightness = br\<rparr>, g5))"

text \<open>\<open>Particle.update\<close>; the argument \<open>base_radius\<close> is accepted and not used.\<close>

definition Particle_update ::
  "real \<Rightarrow> real \<Rightarrow> real \<Rightarrow> real \<Rightarrow> Particle \<Rightarrow> rng \<Rightarrow> Particle \<times> rng" where
  "Particle_update dt swirl_speed lift_speed base_r p g =
     (let p1 = p\<lparr>angle := angle p + swirl_speed * dt * swirl_variation p\<rparr>;
          p2 = p1\<lparr>altitude := altitude p1 + lift_speed * dt * (0.4 + 0.6 * radius_seed p1)\<rparr>
      in if altitude p2 > of_int MAX_TORNADO_HEIGHT then
           (let p3 = p2\<lparr>altitude := altitude p2 - of_int MAX_TORNADO_HEIGHT\<rparr>
            in case random_uniform 0.0 math_tau g of (an, g1) \<Rightarrow>
               case random_uniform 0.2 1.0 g1 of (rs, g2) \<Rightarrow>
               case random_uniform 0.5 1.0 g2 of (br, g3) \<Rightarrow>
                 (p3\<lparr>angle := an, radius_seed := rs, brightness := br\<rparr>, g3))
         else (p2, g))"

text \<open>
  \<open>Particle.project\<close>. \<open>lerp_radius\<close> may raise; a complex radius makes \<open>x\<close> complex,
  and \<open>int(x)\<close> in the return statement then raises \<open>TypeError\<close>.
\<close>

definition project :: "Particle \<Rightarrow> real \<Rightarrow> py_error + (int \<times> int \<times> int)" where
  "project p base_r =
     (let height_ratio = altitude p / of_int MAX_TORNADO_HEIGHT
      in case lerp_radius (radius_seed p) base_r height_ratio of
           Inl e \<Rightarrow> Inl e
         | Inr radius \<Rightarrow>
             (let xv = num_shift (of_int CENTER_X) (num_scale (cos (angle p)) radius);
                  yv = of_int GROUND_Y - altitude p;
                  size = max 1 (py_int (4 * (1 - height_ratio) + 1))
              in case num_int xv of
                   Inl e \<Rightarrow> Inl e
                 | Inr xi \<Rightarrow> Inr (xi, py_int yv, size)))"

text \<open>
  The sequence of \<open>update\<close> calls one particle receives: each call has its own time step
  and level parameters, and finds the random module in some state.
\<close>

record tick =
  tick_dt :: real
  tick_swirl :: real
  tick_lift :: real
  tick_base_radius :: real
  tick_rng :: rng

fun Particle_updates :: "tick list \<Rightarrow> Particle \<Rightarrow> Particle" where
  "Particle_updates [] p = p"
| "Particle_updates (t # ts) p =
     Particle_updates ts
       (fst (Particle_update (tick_dt t) (tick_swirl t) (tick_lift t) (tick_base_radius t) p (tick_rng t)))"

subsection \<open>Debris\<close>

record Debris =
  debris_x :: real
  debris_y :: real
  velocity_x :: real
  velocity_y :: real
  lifetime :: real

text \<open>
  \<open>Debris.spawn\<close> (the fields \<open>x\<close> and \<open>y\<close> are \<open>debris_x\<close> and \<open>debris_y\<close> here).
\<close>

definition Debris_spawn :: "rng \<Rightarrow> Debris \<times> rng" where
  "Debris_spawn g =
     (case random_uniform 0 math_tau g of (ang, g1) \<Rightarrow>
      case random_uniform 80 220 g1 of (speed, g2) \<Rightarrow>
      case random_uniform 10 80 g2 of (reach, g3) \<Rightarrow>
      case random_uniform 5 20 g3 of (up, g4) \<Rightarrow>
      case random_uniform 30 160 g4 of (kick, g5) \<Rightarrow>
      case random_uniform 0.6 1.4 g5 of (life, g6) \<Rightarrow>
        (\<lparr>debris_x = of_int CENTER_X + cos ang * reach,
          debris_y = of_int GROUND_Y - up,
          velocity_x = cos ang * speed,
          velocity_y = - kick,
          lifetime = life\<rparr>, g6))"

text \<open>\<open>Debris.update\<close>, in the arithmetic of doubles.\<close>

definition Debris_update :: "real \<Rightarrow> Debris \<Rightarrow> Debris" where
  "Debris_update dt d =
     (let d1 = d\<lparr>velocity_y := float_add (velocity_y d) (float_mul 220 dt)\<rparr>;
          d2 = d1\<lparr>debris_x := float_add (debris_x d1) (float_mul (velocity_x d1) dt)\<rparr>;
          d3 = d2\<lparr>debris_y := float_add (debris_y d2) (float_mul (velocity_y d2) dt)\<rparr>
      in d3\<lparr>lifetime := float_sub (lifetime d3) dt\<rparr>)"

text \<open>The test of the sweep: \<open>debris.lifetime <= 0 or debris.y > HEIGHT\<close>.\<close>

definition expired :: "Debris \<Rightarrow> bool" where
  "expired d \<longleftrightarrow> lifetime d \<le> 0 \<or> debris_y d > of_int HEIGHT"

subsection \<open>The simulator\<close>

text \<open>
  Debris objects are mutated in place while two lists refer to them (the live list and
  the copy the sweep iterates over), and \<open>list.remove\<close> compares objects; so debris
  objects live in a store, and the lists hold references.
\<close>

type_synonym ref = nat

record TornadoSimulator =
  particles :: "Particle list"
  debris_particles :: "ref list"
  level_names :: "string list"
  level_index :: int
  time :: real
  debris_store :: "ref \<Rightarrow> Debris"
  next_ref :: ref
  random_state :: rng

text \<open>\<open>[Particle.random() for _ in range(n)]\<close>\<close>

fun random_particles :: "nat \<Rightarrow> rng \<Rightarrow> Particle list \<times> rng" where
  "random_particles 0 g = ([], g)"
| "random_particles (Suc n) g =
     (case Particle_random g of (p, g1) \<Rightarrow>
      case random_particles n g1 of (ps, g2) \<Rightarrow> (p # ps, g2))"

text \<open>
  \<open>TornadoSimulator.__init__\<close>, given the state of the random module; the pygame
  objects it creates (screen, clock, fonts, gradient surfaces) are left out.
\<close>

definition TornadoSimulator_init :: "rng \<Rightarrow> TornadoSimulator" where
  "TornadoSimulator_init g =
     (case random_particles PARTICLES_PER_LEVEL g of (ps, g1) \<Rightarrow>
        \<lparr>particles = ps,
         debris_particles = [],
         level_names = map fst EF_LEVELS,
         level_index = 2,
         time = 0.0,
         debris_store = (\<lambda>_. \<lparr>debris_x = 0, debris_y = 0, velocity_x = 0, velocity_y = 0, lifetime = 0\<rparr>),
         next_ref = 0,
         random_state = g1\<rparr>)"

definition current_level :: "TornadoSimulator \<Rightarrow> py_error + level" where
  "current_level s =
     (case list_get (level_names s) (level_index s) of
        Inl e \<Rightarrow> Inl e
      | Inr name \<Rightarrow> dict_get EF_LEVELS name)"

subsubsection \<open>Input events\<close>

datatype event = QUIT | KEYDOWN int | OTHER

definition K_ESCAPE :: int where "K_ESCAPE = 27"
definition K_SPACE :: int where "K_SPACE = 32"
definition K_RETURN :: int where "K_RETURN = 13"
definition K_0 :: int where "K_0 = 48"
definition K_5 :: int where "K_5 = 53"

definition py_mod :: "int \<Rightarrow> int \<Rightarrow> py_error + int" where
  "py_mod a b = (if b = 0 then Inl ZeroDivisionError else Inr (a mod b))"

text \<open>
  The body of the event loop of \<open>run\<close> for one event, on the flag \<open>running\<close> and the
  simulator.
\<close>

definition handle_event :: "event \<Rightarrow> bool \<times> TornadoSimulator \<Rightarrow> py_error + (bool \<times> TornadoSimulator)" where
  "handle_event ev st =
     (case st of (running, s) \<Rightarrow>
        (case ev of
           QUIT \<Rightarrow> Inr (False, s)
         | KEYDOWN key \<Rightarrow>
             if key = K_ESCAPE then Inr (False, s)
             else if key = K_SPACE \<or> key = K_RETURN then
               (case py_mod (level_index s + 1) (int (length (level_names s))) of
                  Inl e \<Rightarrow> Inl e
                | Inr i \<Rightarrow> Inr (running, s\<lparr>level_index := i\<rparr>))
             else if K_0 \<le> key \<and> key \<le> K_5 then
               Inr (running, s\<lparr>level_index := min (key - K_0) (int (length (level_names s)) - 1)\<rparr>)
             else Inr (running, s)
         | OTHER \<Rightarrow> Inr (running, s)))"

text \<open>\<open>for event in pygame.event.get(): ...\<close>\<close>

fun process_events :: "event list \<Rightarrow> bool \<times> TornadoSimulator \<Rightarrow> py_error + (bool \<times> TornadoSimulator)" where
  "process_events [] st = Inr st"
| "process_events (ev # evs) st =
     (case handle_event ev st of Inl e \<Rightarrow> Inl e | Inr st' \<Rightarrow> process_events evs st')"

subsubsection \<open>The update pass\<close>

text \<open>\<open>for particle in self.particles: particle.update(dt, swirl, lift, base_radius)\<close>\<close>

fun update_particles ::
  "real \<Rightarrow> real \<Rightarrow> real \<Rightarrow> real \<Rightarrow> Particle list \<Rightarrow> rng \<Rightarrow> Particle list \<times> rng" where
  "update_particles dt sw lf br [] g = ([], g)"
| "update_particles dt sw lf br (p # ps) g =
     (case Particle_update dt sw lf br p g of (p', g1) \<Rightarrow>
      case update_particles dt sw lf br ps g1 of (ps', g2) \<Rightarrow> (p' # ps', g2))"

text \<open>
  \<open>xs.remove(v)\<close> deletes the first item that is \<open>v\<close> or equals \<open>v\<close>, and raises
  \<open>ValueError\<close> when there is none. The test is a parameter.
\<close>

fun list_remove :: "('a \<Rightarrow> bool) \<Rightarrow> 'a list \<Rightarrow> py_error + 'a list" where
  "list_remove same [] = Inl ValueError"
| "list_remove same (v # vs) =
     (if same v then Inr vs
      else case list_remove same vs of Inl e \<Rightarrow> Inl e | Inr vs' \<Rightarrow> Inr (v # vs'))"

text \<open>
  The \<open>__eq__\<close> that \<open>@dataclass\<close> generates compares the fields, so two references are
  the same item for \<open>remove\<close> when they are one object or their objects have equal fields.
\<close>

definition same_debris :: "(ref \<Rightarrow> Debris) \<Rightarrow> ref \<Rightarrow> ref \<Rightarrow> bool" where
  "same_debris store r q \<longleftrightarrow> q = r \<or> store q = store r"

text \<open>
  The sweep \<open>for debris in self.debris_particles[:]: ...\<close>: the first argument is what is
  left of the copy, the state is the live list and the store.
\<close>

fun sweep :: "real \<Rightarrow> ref list \<Rightarrow> ref list \<times> (ref \<Rightarrow> Debris) \<Rightarrow> py_error + (ref list \<times> (ref \<Rightarrow> Debris))" where
  "sweep dt [] st = Inr st"
| "sweep dt (r # rs) (live, store) =
     (let store1 = store(r := Debris_update dt (store r))
      in if expired (store1 r) then
           (case list_remove (same_debris store1 r) live of
              Inl e \<Rightarrow> Inl e
            | Inr live1 \<Rightarrow> sweep dt rs (live1, store1))
         else sweep dt rs (live, store1))"

text \<open>
  \<open>if random.random() < debris_rate: self.debris_particles.append(Debris.spawn())\<close>;
  the new object gets a reference that was never used.
\<close>

definition maybe_spawn :: "real \<Rightarrow> TornadoSimulator \<Rightarrow> TornadoSimulator" where
  "maybe_spawn debris_rate s =
     (case random_random (random_state s) of (u, g1) \<Rightarrow>
        if u < debris_rate then
          (case Debris_spawn g1 of (d, g2) \<Rightarrow>
             s\<lparr>debris_particles := debris_particles s @ [next_ref s],
               debris_store := (debris_store s)(next_ref s := d),
               next_ref := Suc (next_ref s),
               random_state := g2\<rparr>)
        else s\<lparr>random_state := g1\<rparr>)"

definition sweep_debris :: "real \<Rightarrow> TornadoSimulator \<Rightarrow> py_error + TornadoSimulator" where
  "sweep_debris dt s =
     (case sweep dt (debris_particles s) (debris_particles s, debris_store s) of
        Inl e \<Rightarrow> Inl e
      | Inr (live, store) \<Rightarrow> Inr (s\<lparr>debris_particles := live, debris_store := store\<rparr>))"

text \<open>\<open>TornadoSimulator.update\<close>: the particles, the spawn, the sweep.\<close>

definition update :: "real \<Rightarrow> TornadoSimulator \<Rightarrow> py_error + TornadoSimulator" where
  "update dt s =
     (case current_level s of
        Inl e \<Rightarrow> Inl e
      | Inr lv \<Rightarrow>
          (case update_particles dt (swirl lv) (lift lv) (base_radius lv) (particles s) (random_state s) of
             (ps, g1) \<Rightarrow>
               sweep_debris dt (maybe_spawn (debris lv) (s\<lparr>particles := ps, random_state := g1\<rparr>))))"


subsection \<open>Auxiliary notions and sample inputs\<close>

text \<open>The closed form of the radius for a real result of the power.\<close>

definition radius_formula :: "real \<Rightarrow> real \<Rightarrow> real \<Rightarrow> real" where
  "radius_formula seed base_r h =
     base_r * (1 - h) powr (0.4 + (0.05 + 0.35 * (1 - seed))) * (0.6 + 0.4 * seed)"

text \<open>The ranges a particle keeps from one update to the next.\<close>

definition in_column :: "Particle \<Rightarrow> bool" where
  "in_column p \<longleftrightarrow>
     0 \<le> altitude p \<and> altitude p \<le> of_int MAX_TORNADO_HEIGHT \<and> 0.2 \<le> radius_seed p \<and> radius_seed p \<le> 1"

text \<open>
  An update that cannot lift a particle by more than the height of the column, run on a
  random module whose draws are in \<open>[0, 1)\<close>.
\<close>

definition gentle_tick :: "tick \<Rightarrow> bool" where
  "gentle_tick t \<longleftrightarrow>
     0 \<le> tick_dt t \<and> 0 \<le> tick_lift t
     \<and> tick_lift t * tick_dt t \<le> of_int MAX_TORNADO_HEIGHT \<and> unit_draws (tick_rng t)"

text \<open>An update that turns forward, on a random module whose draws are in \<open>[0, 1)\<close>.\<close>

definition turning_tick :: "tick \<Rightarrow> bool" where
  "turning_tick t \<longleftrightarrow> 0 \<le> tick_dt t \<and> 0 \<le> tick_swirl t \<and> unit_draws (tick_rng t)"

text \<open>A random module that returns the same value at every call.\<close>

definition const_rng :: "real \<Rightarrow> rng" where
  "const_rng u = (\<lambda>n. u)"

definition sample_particle :: Particle where
  "sample_particle = \<lparr>radius_seed = 1, altitude = 539, angle = 3, swirl_variation = 1, brightness = 1\<rparr>"

definition low_particle :: Particle where
  "low_particle = \<lparr>radius_seed = 1, altitude = 100, angle = 3, swirl_variation = 1, brightness = 1\<rparr>"

definition ground_particle :: Particle where
  "ground_particle = \<lparr>radius_seed = 0.2, altitude = 0, angle = 3, swirl_variation = 1, brightness = 1\<rparr>"

definition quarter_particle :: Particle where
  "quarter_particle = \<lparr>radius_seed = 1, altitude = 54, angle = pi / 2, swirl_variation = 1, brightness = 1\<rparr>"

text \<open>An update at level EF5.\<close>

definition ef5_tick :: "real \<Rightarrow> rng \<Rightarrow> tick" where
  "ef5_tick dt g = \<lparr>tick_dt = dt, tick_swirl = 4.5, tick_lift = 360.0, tick_base_radius = 280.0, tick_rng = g\<rparr>"

definition two_ticks :: "tick list" where
  "two_ticks = [ef5_tick (1/60) (const_rng (1/2)), ef5_tick (1/60) (const_rng (1/2))]"

definition sample_sim :: TornadoSimulator where
  "sample_sim = TornadoSimulator_init (const_rng 0)"

text \<open>
  The references of the live list are distinct and were all handed out already; the
  level index selects one of the six levels.
\<close>

definition debris_ok :: "TornadoSimulator \<Rightarrow> bool" where
  "debris_ok s \<longleftrightarrow> distinct (debris_particles s) \<and> (\<forall>q \<in> set (debris_particles s). q < next_ref s)"

definition level_ok :: "TornadoSimulator \<Rightarrow> bool" where
  "level_ok s \<longleftrightarrow> level_names s = map fst EF_LEVELS \<and> 0 \<le> level_index s \<and> level_index s < 6"








text \<open>
  A piece of debris straight above the centre, 12 above the ground, kicked upward at 150,
  with one second to live; and draws on which \<open>Debris.spawn\<close> makes it.
\<close>

definition kicked_debris :: Debris where
  "kicked_debris = \<lparr>debris_x = 480, debris_y = 600, velocity_x = 0, velocity_y = - 150, lifetime = 1\<rparr>"

definition kick_rng :: rng where
  "kick_rng n = (if n = 0 then 1/4 else if n = 3 then 7/15 else if n = 4 then 12/13 else 1/2)"


text \<open>
  A simulator at level EF5 that holds \<open>low_particle\<close>, and that particle after an update
  with a time step of three seconds.
\<close>

definition stalled_sim :: TornadoSimulator where
  "stalled_sim = (TornadoSimulator_init (const_rng (1/2)))\<lparr>particles := [low_particle], level_index := 5\<rparr>"

definition escaped_particle :: Particle where
  "escaped_particle = \<lparr>radius_seed = 0.6, altitude = 640, angle = pi, swirl_variation = 1, brightness = 0.75\<rparr>"

section \<open>Properties\<close>

subsection \<open>Constants and the random source\<close>

lemma MAX_TORNADO_HEIGHT_eq: "MAX_TORNADO_HEIGHT = 540"
  by (simp add: MAX_TORNADO_HEIGHT_def HEIGHT_def py_int_def)

lemma GROUND_Y_eq: "GROUND_Y = 612"
  by (simp add: GROUND_Y_def HEIGHT_def py_int_def)

lemma CENTER_X_eq: "CENTER_X = 480"
  by (simp add: CENTER_X_def WIDTH_def)

lemma unit_draws_const: "0 \<le> u \<Longrightarrow> u < 1 \<Longrightarrow> unit_draws (const_rng u)"
  by (simp add: unit_draws_def const_rng_def)

lemma random_uniform_eq: "random_uniform a b g = (a + (b - a) * g 0, \<lambda>n. g (Suc n))"
  by (simp add: random_uniform_def random_random_def)

lemma uniform_lower: "0 \<le> u \<Longrightarrow> a \<le> b \<Longrightarrow> a \<le> a + (b - a) * (u::real)"
  by simp

lemma uniform_upper: "u < 1 \<Longrightarrow> a < b \<Longrightarrow> a + (b - a) * (u::real) < b"
proof -
  assume "u < 1" "a < b"
  then have "(b - a) * u < (b - a) * 1" by (intro mult_strict_left_mono) auto
  then show ?thesis by simp
qed

subsection \<open>The radius profile\<close>

lemma lerp_radius_float:
  assumes "seed \<le> 1" "h \<le> 1"
  shows "lerp_radius seed b h = Inr (PyFloat (radius_formula seed b h))"
proof -
  have e: "0.4 + (0.05 + 0.35 * (1 - seed)) > 0" using assms(1) by (simp add: field_simps)
  show ?thesis
  proof (cases "h = 1")
    case True
    with e show ?thesis
      by (simp add: lerp_radius_def float_pow_def num_scale_def radius_formula_def Let_def)
  next
    case False
    with assms have "0 < 1 - h" by simp
    with e show ?thesis
      by (simp add: lerp_radius_def float_pow_def num_scale_def radius_formula_def Let_def mult.commute mult.left_commute)
  qed
qed

text \<open>
  Claim C2. For every seed in \<open>[0.2, 1.0]\<close> and every base radius \<open>b > 0\<close>, the radius
  profile is \<open>0\<close> at height ratio \<open>1\<close>, is strictly positive at every height ratio in
  \<open>[0, 1)\<close>, and does not increase when the height ratio grows within \<open>[0, 1]\<close>.
\<close>

theorem lerp_radius_profile:
  assumes "0.2 \<le> seed" "seed \<le> 1" "0 < b"
  shows "lerp_radius seed b 1 = Inr (PyFloat 0)
       \<and> (0 \<le> h \<and> h < 1 \<longrightarrow> (\<exists>r. lerp_radius seed b h = Inr (PyFloat r) \<and> 0 < r))
       \<and> (0 \<le> h1 \<and> h1 \<le> h2 \<and> h2 \<le> 1 \<longrightarrow>
            (\<exists>r1 r2. lerp_radius seed b h1 = Inr (PyFloat r1) \<and> lerp_radius seed b h2 = Inr (PyFloat r2) \<and> r2 \<le> r1))"
proof (intro conjI impI)
  have e: "0.4 + (0.05 + 0.35 * (1 - seed)) > 0" using assms(2) by (simp add: field_simps)
  show "lerp_radius seed b 1 = Inr (PyFloat 0)"
    using assms e by (simp add: lerp_radius_float radius_formula_def)
  have c: "0 < 0.6 + 0.4 * seed" using assms by simp
  {
    assume h: "0 \<le> h \<and> h < 1"
    then have "0 < (1 - h) powr (0.4 + (0.05 + 0.35 * (1 - seed)))" by simp
    with c assms have "0 < radius_formula seed b h"
      unfolding radius_formula_def by (intro mult_pos_pos) 
    with h assms show "\<exists>r. lerp_radius seed b h = Inr (PyFloat r) \<and> 0 < r"
      by (simp add: lerp_radius_float)
  }
  {
    assume h: "0 \<le> h1 \<and> h1 \<le> h2 \<and> h2 \<le> 1"
    then have "(1 - h2) powr (0.4 + (0.05 + 0.35 * (1 - seed))) \<le> (1 - h1) powr (0.4 + (0.05 + 0.35 * (1 - seed)))"
      using e by (intro powr_mono2) auto
    then have "b * (1 - h2) powr (0.4 + (0.05 + 0.35 * (1 - seed))) \<le> b * (1 - h1) powr (0.4 + (0.05 + 0.35 * (1 - seed)))"
      using assms by (intro mult_left_mono) auto
    then have "radius_formula seed b h2 \<le> radius_formula seed b h1"
      unfolding radius_formula_def using c by (intro mult_right_mono) auto
    with h assms show "\<exists>r1 r2. lerp_radius seed b h1 = Inr (PyFloat r1) \<and> lerp_radius seed b h2 = Inr (PyFloat r2) \<and> r2 \<le> r1"
      by (simp add: lerp_radius_float)
  }
qed

theorem lerp_radius_profile_witness:
  "(0.2::real) \<le> 1/2 \<and> (1/2::real) \<le> 1 \<and> (0::real) < 180
   \<and> lerp_radius (1/2) 180 1 = Inr (PyFloat 0)
   \<and> ((0::real) \<le> 1/4 \<and> (1/4::real) < 1)
   \<and> (\<exists>r. lerp_radius (1/2) 180 (1/4) = Inr (PyFloat r) \<and> 0 < r)
   \<and> ((0::real) \<le> 1/4 \<and> (1/4::real) \<le> 3/4 \<and> (3/4::real) \<le> 1)
   \<and> (\<exists>r1 r2. lerp_radius (1/2) 180 (1/4) = Inr (PyFloat r1) \<and> lerp_radius (1/2) 180 (3/4) = Inr (PyFloat r2) \<and> r2 \<le> r1)"
  using lerp_radius_profile [of "1/2" 180 "1/4" "1/4" "3/4"] by simp

subsection \<open>Particle motion\<close>

text \<open>The state of a particle and of the random module after an update that wraps.\<close>

lemma Particle_update_wrap:
  assumes "altitude p + lf * dt * (0.4 + 0.6 * radius_seed p) > of_int MAX_TORNADO_HEIGHT"
  shows "Particle_update dt sw lf br p g =
           (\<lparr>radius_seed = 0.2 + (1.0 - 0.2) * g 1,
             altitude = altitude p + lf * dt * (0.4 + 0.6 * radius_seed p) - of_int MAX_TORNADO_HEIGHT,
             angle = 0.0 + (math_tau - 0.0) * g 0,
             swirl_variation = swirl_variation p,
             brightness = 0.5 + (1.0 - 0.5) * g 2\<rparr>,
            \<lambda>n. g (Suc (Suc (Suc n))))"
  using assms by (cases p) (simp add: Particle_update_def Let_def random_uniform_eq numeral_2_eq_2)

lemma Particle_update_no_wrap:
  assumes "altitude p + lf * dt * (0.4 + 0.6 * radius_seed p) \<le> of_int MAX_TORNADO_HEIGHT"
  shows "Particle_update dt sw lf br p g =
           (p\<lparr>angle := angle p + sw * dt * swirl_variation p,
              altitude := altitude p + lf * dt * (0.4 + 0.6 * radius_seed p)\<rparr>, g)"
  using assms by (simp add: Particle_update_def Let_def)

text \<open>
  An update whose rise is at most the height of the column keeps the altitude and the
  radius seed in their ranges: the single subtraction of the wrap is enough only then.
\<close>

lemma rise_bounds:
  assumes "0.2 \<le> rs" "rs \<le> 1" "0 \<le> dt" "0 \<le> lf" "lf * dt \<le> H"
  shows "0 \<le> lf * dt * (0.4 + 0.6 * rs)" and "lf * dt * (0.4 + 0.6 * rs) \<le> (H::real)"
proof -
  have f: "0 \<le> 0.4 + 0.6 * rs" "0.4 + 0.6 * rs \<le> 1" using assms by (simp_all add: field_simps)
  have m: "0 \<le> lf * dt" using assms by simp
  show "0 \<le> lf * dt * (0.4 + 0.6 * rs)" using m f by simp
  have "lf * dt * (0.4 + 0.6 * rs) \<le> lf * dt * 1"
    using m f by (intro mult_left_mono) auto
  with assms show "lf * dt * (0.4 + 0.6 * rs) \<le> H" by simp
qed

lemma Particle_update_in_column:
  assumes "in_column p" "0 \<le> dt" "0 \<le> lf" "lf * dt \<le> of_int MAX_TORNADO_HEIGHT" "unit_draws g"
  shows "in_column (fst (Particle_update dt sw lf br p g))"
proof -
  let ?H = "of_int MAX_TORNADO_HEIGHT :: real"
  let ?rise = "lf * dt * (0.4 + 0.6 * radius_seed p)"
  from assms have r: "0 \<le> ?rise" "?rise \<le> ?H"
    using rise_bounds [of "radius_seed p" dt lf ?H] by (simp_all add: in_column_def)
  show ?thesis
  proof (cases "altitude p + ?rise > ?H")
    case True
    from assms(5) have g: "0 \<le> g 1" "g 1 < 1" by (simp_all add: unit_draws_def)
    have "0.2 \<le> 0.2 + (1.0 - 0.2) * g 1" using g by simp
    moreover have "0.2 + (1.0 - 0.2) * g 1 \<le> 1" using g by simp
    ultimately show ?thesis
      using True r assms(1) by (simp add: Particle_update_wrap in_column_def)
  next
    case False
    then show ?thesis
      using r assms(1) by (simp add: Particle_update_no_wrap in_column_def)
  qed
qed

lemma Particle_updates_in_column:
  assumes "in_column p"
    and "list_all gentle_tick ts"
  shows "in_column (Particle_updates ts p)"
  using assms
proof (induction ts arbitrary: p)
  case Nil
  then show ?case by simp
next
  case (Cons t ts)
  from Cons.prems have "in_column (fst (Particle_update (tick_dt t) (tick_swirl t) (tick_lift t) (tick_base_radius t) p (tick_rng t)))"
    by (intro Particle_update_in_column) (auto simp: gentle_tick_def)
  with Cons show ?case by simp
qed

subsection \<open>The angle and the swirl variation\<close>

lemma math_tau_bounds: "4 \<le> math_tau" "math_tau < 8"
  using pi_ge_two pi_less_4 by (simp_all add: math_tau_def)

lemma Particle_random_eq:
  "Particle_random g =
     (\<lparr>radius_seed = 0.2 + (1.0 - 0.2) * g 0,
       altitude = 0.0 + (of_int MAX_TORNADO_HEIGHT - 0.0) * g 1,
       angle = 0.0 + (math_tau - 0.0) * g 2,
       swirl_variation = 0.6 + (1.4 - 0.6) * g 3,
       brightness = 0.5 + (1.0 - 0.5) * g 4\<rparr>, \<lambda>n. g (n + 5))"
  by (simp add: Particle_random_def random_uniform_eq numeral_2_eq_2 numeral_3_eq_3 eval_nat_numeral)

lemma Particle_update_swirl_variation:
  "swirl_variation (fst (Particle_update dt sw lf br p g)) = swirl_variation p"
  by (simp add: Particle_update_def Let_def random_uniform_eq)

lemma Particle_updates_swirl_variation:
  "swirl_variation (Particle_updates ts p) = swirl_variation p"
  by (induction ts arbitrary: p) (simp_all add: Particle_update_swirl_variation)

lemma update_particles_swirl_variation:
  "map swirl_variation (fst (update_particles dt sw lf br ps g)) = map swirl_variation ps"
proof (induction ps arbitrary: g)
  case Nil
  show ?case by simp
next
  case (Cons p ps)
  obtain p' g1 where u: "Particle_update dt sw lf br p g = (p', g1)" by (cases "Particle_update dt sw lf br p g")
  obtain ps' g2 where r: "update_particles dt sw lf br ps g1 = (ps', g2)" by (cases "update_particles dt sw lf br ps g1")
  from u have "swirl_variation p' = swirl_variation p"
    using Particle_update_swirl_variation [of dt sw lf br p g] by simp
  moreover from r have "map swirl_variation ps' = map swirl_variation ps"
    using Cons.IH [of g1] by simp
  ultimately show ?case using u r by simp
qed

text \<open>
  Claim C9. An update of a particle leaves its swirl variation as it is, whether the
  altitude wraps or not; so do any number of updates, and the update loop of the simulator
  for every particle of the list.
\<close>

theorem swirl_variation_unchanged:
  "swirl_variation (fst (Particle_update dt sw lf br p g)) = swirl_variation p
   \<and> swirl_variation (Particle_updates ts p) = swirl_variation p
   \<and> map swirl_variation (fst (update_particles dt sw lf br ps g)) = map swirl_variation ps"
  by (simp add: Particle_update_swirl_variation Particle_updates_swirl_variation
      update_particles_swirl_variation)

lemma Particle_update_angle_nonneg:
  assumes "0 \<le> angle p" "0 \<le> swirl_variation p" "0 \<le> dt" "0 \<le> sw" "unit_draws g"
  shows "0 \<le> angle (fst (Particle_update dt sw lf br p g))"
proof (cases "altitude p + lf * dt * (0.4 + 0.6 * radius_seed p) > of_int MAX_TORNADO_HEIGHT")
  case True
  from assms(5) have "0 \<le> g 0" by (simp add: unit_draws_def)
  moreover have "0 \<le> math_tau" using math_tau_bounds by simp
  ultimately show ?thesis using True by (simp add: Particle_update_wrap)
next
  case False
  from assms have "0 \<le> sw * dt * swirl_variation p" by simp
  with assms(1) False show ?thesis by (simp add: Particle_update_no_wrap)
qed

lemma Particle_updates_angle_nonneg:
  assumes "0 \<le> angle p" "0 \<le> swirl_variation p" "list_all turning_tick ts"
  shows "0 \<le> angle (Particle_updates ts p)"
  using assms
proof (induction ts arbitrary: p)
  case Nil
  then show ?case by simp
next
  case (Cons t ts)
  let ?q = "fst (Particle_update (tick_dt t) (tick_swirl t) (tick_lift t) (tick_base_radius t) p (tick_rng t))"
  from Cons.prems have "0 \<le> angle ?q"
    by (intro Particle_update_angle_nonneg) (auto simp: turning_tick_def)
  moreover have "0 \<le> swirl_variation ?q"
    using Cons.prems by (simp add: Particle_update_swirl_variation)
  ultimately show ?case using Cons by simp
qed

text \<open>
  Claim C7, as amended. The angle of a particle is in \<open>[0, 2\<pi>)\<close> after construction and
  after an update that wraps. An update that does not wrap adds
  \<open>swirl * dt * swirl_variation\<close> to the angle and does not reduce it modulo \<open>2\<pi>\<close>; through
  any number of updates (with \<open>dt \<ge> 0\<close> and \<open>swirl \<ge> 0\<close>) a non-negative angle stays
  non-negative, and it is not bounded above.
\<close>

theorem angle_range:
  assumes "unit_draws g"
  shows "0 \<le> angle (fst (Particle_random g)) \<and> angle (fst (Particle_random g)) < math_tau
       \<and> 0 \<le> swirl_variation (fst (Particle_random g))
       \<and> (0 \<le> angle p \<and> 0 \<le> swirl_variation p \<and> list_all turning_tick ts
            \<longrightarrow> 0 \<le> angle (Particle_updates ts p))
       \<and> (altitude p + lf * dt * (0.4 + 0.6 * radius_seed p) > of_int MAX_TORNADO_HEIGHT
            \<longrightarrow> 0 \<le> angle (fst (Particle_update dt sw lf br p g))
              \<and> angle (fst (Particle_update dt sw lf br p g)) < math_tau)
       \<and> (altitude p + lf * dt * (0.4 + 0.6 * radius_seed p) \<le> of_int MAX_TORNADO_HEIGHT
            \<longrightarrow> angle (fst (Particle_update dt sw lf br p g)) = angle p + sw * dt * swirl_variation p)"
proof -
  from assms have g: "0 \<le> g 0" "g 0 < 1" "0 \<le> g 2" "g 2 < 1" "0 \<le> g 3"
    by (simp_all add: unit_draws_def)
  have t: "0 < math_tau" using math_tau_bounds by simp
  have a: "math_tau * g 2 < math_tau" "math_tau * g 0 < math_tau"
    using uniform_upper [of "g 2" 0 math_tau] uniform_upper [of "g 0" 0 math_tau] g t by simp_all
  have "0 \<le> angle (fst (Particle_random g))" using g t by (simp add: Particle_random_eq)
  moreover have "angle (fst (Particle_random g)) < math_tau" using a by (simp add: Particle_random_eq)
  moreover have "0 \<le> swirl_variation (fst (Particle_random g))" using g by (simp add: Particle_random_eq)
  moreover have "0 \<le> angle p \<and> 0 \<le> swirl_variation p \<and> list_all turning_tick ts
            \<longrightarrow> 0 \<le> angle (Particle_updates ts p)"
    using Particle_updates_angle_nonneg by blast
  moreover have "altitude p + lf * dt * (0.4 + 0.6 * radius_seed p) > of_int MAX_TORNADO_HEIGHT
            \<longrightarrow> 0 \<le> angle (fst (Particle_update dt sw lf br p g))
              \<and> angle (fst (Particle_update dt sw lf br p g)) < math_tau"
    using g t a by (simp add: Particle_update_wrap)
  moreover have "altitude p + lf * dt * (0.4 + 0.6 * radius_seed p) \<le> of_int MAX_TORNADO_HEIGHT
            \<longrightarrow> angle (fst (Particle_update dt sw lf br p g)) = angle p + sw * dt * swirl_variation p"
    by (simp add: Particle_update_no_wrap)
  ultimately show ?thesis by blast
qed

theorem angle_range_witness:
  "unit_draws (const_rng (1/2))
   \<and> 0 \<le> angle (fst (Particle_random (const_rng (1/2))))
   \<and> angle (fst (Particle_random (const_rng (1/2)))) < math_tau
   \<and> 0 \<le> swirl_variation (fst (Particle_random (const_rng (1/2))))
   \<and> (0 \<le> angle sample_particle \<and> 0 \<le> swirl_variation sample_particle
        \<and> list_all turning_tick two_ticks)
   \<and> 0 \<le> angle (Particle_updates two_ticks sample_particle)
   \<and> altitude sample_particle + 360 * (1/60) * (0.4 + 0.6 * radius_seed sample_particle)
        > of_int MAX_TORNADO_HEIGHT
   \<and> 0 \<le> angle (fst (Particle_update (1/60) 4.5 360 280 sample_particle (const_rng (1/2))))
   \<and> angle (fst (Particle_update (1/60) 4.5 360 280 sample_particle (const_rng (1/2)))) < math_tau
   \<and> altitude ground_particle + 360 * (1/60) * (0.4 + 0.6 * radius_seed ground_particle)
        \<le> of_int MAX_TORNADO_HEIGHT
   \<and> angle (fst (Particle_update (1/60) 4.5 360 280 ground_particle (const_rng (1/2))))
        = angle ground_particle + 4.5 * (1/60) * swirl_variation ground_particle"
proof -
  have u: "unit_draws (const_rng (1/2))" by (simp add: unit_draws_const)
  have h: "0 \<le> angle sample_particle \<and> 0 \<le> swirl_variation sample_particle
        \<and> list_all turning_tick two_ticks"
    by (simp add: sample_particle_def two_ticks_def turning_tick_def ef5_tick_def unit_draws_const)
  have w: "altitude sample_particle + 360 * (1/60) * (0.4 + 0.6 * radius_seed sample_particle)
        > of_int MAX_TORNADO_HEIGHT"
    by (simp add: sample_particle_def MAX_TORNADO_HEIGHT_eq)
  have n: "altitude ground_particle + 360 * (1/60) * (0.4 + 0.6 * radius_seed ground_particle)
        \<le> of_int MAX_TORNADO_HEIGHT"
    by (simp add: ground_particle_def MAX_TORNADO_HEIGHT_eq)
  show ?thesis
    using u h w n
      angle_range [OF u, where p = sample_particle and ts = two_ticks and lf = 360
        and dt = "1/60" and sw = "4.5" and br = 280]
      angle_range [OF u, where p = ground_particle and ts = two_ticks and lf = 360
        and dt = "1/60" and sw = "4.5" and br = 280]
    by blast
qed

lemma Particle_updates_replicate:
  assumes "altitude p + real n * (tick_lift t * tick_dt t * (0.4 + 0.6 * radius_seed p)) \<le> of_int MAX_TORNADO_HEIGHT"
    and "0 \<le> tick_lift t * tick_dt t * (0.4 + 0.6 * radius_seed p)"
  shows "Particle_updates (replicate n t) p =
           p\<lparr>angle := angle p + real n * (tick_swirl t * tick_dt t * swirl_variation p),
             altitude := altitude p + real n * (tick_lift t * tick_dt t * (0.4 + 0.6 * radius_seed p))\<rparr>"
  using assms
proof (induction n arbitrary: p)
  case 0
  show ?case by simp
next
  case (Suc n)
  define r where "r = tick_lift t * tick_dt t * (0.4 + 0.6 * radius_seed p)"
  define w where "w = tick_swirl t * tick_dt t * swirl_variation p"
  define q where "q = p\<lparr>angle := angle p + w, altitude := altitude p + r\<rparr>"
  have r0: "0 \<le> r" and top: "altitude p + real (Suc n) * r \<le> of_int MAX_TORNADO_HEIGHT"
    using Suc.prems by (simp_all add: r_def)
  have split: "real (Suc n) * r = r + real n * r" "real (Suc n) * w = w + real n * w"
    by (simp_all add: algebra_simps)
  have "0 \<le> real n * r" using r0 by simp
  with top split have nw: "altitude p + r \<le> of_int MAX_TORNADO_HEIGHT" by linarith
  then have step: "Particle_update (tick_dt t) (tick_swirl t) (tick_lift t) (tick_base_radius t) p (tick_rng t) = (q, tick_rng t)"
    unfolding r_def w_def q_def by (simp add: Particle_update_no_wrap)
  have q: "radius_seed q = radius_seed p" "swirl_variation q = swirl_variation p"
    "angle q = angle p + w" "altitude q = altitude p + r"
    by (simp_all add: q_def)
  have "Particle_updates (replicate n t) q =
          q\<lparr>angle := angle q + real n * (tick_swirl t * tick_dt t * swirl_variation q),
            altitude := altitude q + real n * (tick_lift t * tick_dt t * (0.4 + 0.6 * radius_seed q))\<rparr>"
  proof (rule Suc.IH)
    show "altitude q + real n * (tick_lift t * tick_dt t * (0.4 + 0.6 * radius_seed q)) \<le> of_int MAX_TORNADO_HEIGHT"
      using top split unfolding q r_def [symmetric] by linarith
    show "0 \<le> tick_lift t * tick_dt t * (0.4 + 0.6 * radius_seed q)"
      using r0 unfolding q r_def [symmetric] .
  qed
  then have "Particle_updates (replicate n t) q =
          q\<lparr>angle := angle p + w + real n * w, altitude := altitude p + r + real n * r\<rparr>"
    unfolding q r_def [symmetric] w_def [symmetric] .
  also have "\<dots> = p\<lparr>angle := angle p + real (Suc n) * w, altitude := altitude p + real (Suc n) * r\<rparr>"
    unfolding split by (simp add: q_def add.assoc)
  finally show ?case
    using step unfolding r_def w_def by simp
qed

text \<open>
  The angle passes \<open>2\<pi>\<close>: a particle at altitude 0 with angle 3 (which is below \<open>2\<pi>\<close>),
  swirl variation 1 and radius seed 0.2, updated 80 times at level EF5 with \<open>dt = 1/60\<close>,
  never wraps (it rises by 3.12 per update, to 249.6) and gains 0.075 per update: its
  angle is then 9, above \<open>2\<pi>\<close>.
\<close>

theorem angle_grows_counterexample:
  "0 \<le> angle ground_particle \<and> angle ground_particle < math_tau
   \<and> angle (Particle_updates (replicate 80 (ef5_tick (1/60) (const_rng 0))) ground_particle) = 9
   \<and> \<not> (9 < math_tau)"
proof -
  have "Particle_updates (replicate 80 (ef5_tick (1/60) (const_rng 0))) ground_particle
        = ground_particle\<lparr>angle := 9, altitude := 249.6\<rparr>"
    by (subst Particle_updates_replicate)
       (simp_all add: ef5_tick_def ground_particle_def MAX_TORNADO_HEIGHT_eq)
  then show ?thesis
    using math_tau_bounds by (simp add: ground_particle_def)
qed

subsection \<open>Projection\<close>

lemma project_size_only:
  assumes "project p b = Inr (xi, yi, sz)"
  shows "sz = max 1 (py_int (4 * (1 - altitude p / of_int MAX_TORNADO_HEIGHT) + 1))"
  using assms
  by (auto simp add: project_def Let_def split: sum.splits)

lemma project_returns:
  assumes "altitude p \<le> of_int MAX_TORNADO_HEIGHT" "radius_seed p \<le> 1"
  shows "project p b =
           Inr (py_int (of_int CENTER_X + cos (angle p)
                  * radius_formula (radius_seed p) b (altitude p / of_int MAX_TORNADO_HEIGHT)),
                py_int (of_int GROUND_Y - altitude p),
                max 1 (py_int (4 * (1 - altitude p / of_int MAX_TORNADO_HEIGHT) + 1)))"
proof -
  from assms(1) have "altitude p / of_int MAX_TORNADO_HEIGHT \<le> 1"
    by (simp add: MAX_TORNADO_HEIGHT_eq)
  with assms(2) show ?thesis
    by (simp add: project_def lerp_radius_float Let_def num_scale_def num_shift_def num_int_def)
qed

lemma project_quarter: "project quarter_particle 180 = Inr (480, 558, 4)"
  by (simp add: project_returns quarter_particle_def MAX_TORNADO_HEIGHT_eq GROUND_Y_eq CENTER_X_eq
      py_int_def)

text \<open>
  Above the column the base of the power is negative and the exponent lies strictly
  between 0 and 1, so the radius is complex and \<open>project\<close> raises.
\<close>

lemma project_above_column:
  assumes "altitude p > of_int MAX_TORNADO_HEIGHT" "0.2 \<le> radius_seed p" "radius_seed p \<le> 1"
  shows "project p b = Inl TypeError"
proof -
  define e where "e = 0.4 + (0.05 + 0.35 * (1 - radius_seed p))"
  have e: "0 < e" "e < 1" using assms(2,3) by (simp_all add: e_def field_simps)
  then have "\<lfloor>e\<rfloor> = 0" by (simp add: floor_eq_iff)
  with e have frac: "of_int \<lfloor>e\<rfloor> \<noteq> e" by simp
  define a where "a = 1 - altitude p / of_int MAX_TORNADO_HEIGHT"
  from assms(1) have neg: "a < 0"
    by (simp add: a_def MAX_TORNADO_HEIGHT_eq)
  then have "float_pow a e = Inr PyComplex"
    using e frac by (simp add: float_pow_def)
  then have "float_pow (1 - altitude p / of_int MAX_TORNADO_HEIGHT) e = Inr PyComplex"
    by (simp add: a_def)
  then have "lerp_radius (radius_seed p) b (altitude p / of_int MAX_TORNADO_HEIGHT) = Inr PyComplex"
    unfolding lerp_radius_def Let_def e_def [symmetric] by (simp add: num_scale_def)
  then show ?thesis
    unfolding project_def Let_def by (simp add: num_scale_def num_shift_def num_int_def)
qed

text \<open>
  Claim C8, as amended. Whenever \<open>project\<close> returns, the render size is
  \<open>max(1, int(4 * (1 - height_ratio) + 1))\<close> with \<open>height_ratio = altitude / H_max\<close>, where
  \<open>int\<close> truncates toward zero (it does not round to the nearest integer); and \<open>project\<close>
  returns for every particle with altitude at most \<open>H_max\<close> and radius seed at most 1.
\<close>

theorem project_size:
  "(project p b = Inr (xi, yi, sz) \<longrightarrow>
      sz = max 1 (py_int (4 * (1 - altitude p / of_int MAX_TORNADO_HEIGHT) + 1)))
   \<and> (altitude p \<le> of_int MAX_TORNADO_HEIGHT \<and> radius_seed p \<le> 1 \<longrightarrow>
        (\<exists>xj yj. project p b =
           Inr (xj, yj, max 1 (py_int (4 * (1 - altitude p / of_int MAX_TORNADO_HEIGHT) + 1)))))"
  using project_size_only [of p b xi yi sz] project_returns [of p b] by simp

theorem project_size_witness:
  "project quarter_particle 180 = Inr (480, 558, 4)
   \<and> (4::int) = max 1 (py_int (4 * (1 - altitude quarter_particle / of_int MAX_TORNADO_HEIGHT) + 1))
   \<and> altitude quarter_particle \<le> of_int MAX_TORNADO_HEIGHT \<and> radius_seed quarter_particle \<le> 1
   \<and> (\<exists>xj yj. project quarter_particle 180 =
           Inr (xj, yj, max 1 (py_int (4 * (1 - altitude quarter_particle / of_int MAX_TORNADO_HEIGHT) + 1))))"
proof -
  have r: "project quarter_particle 180 = Inr (480, 558, 4)" by (rule project_quarter)
  have h: "altitude quarter_particle \<le> of_int MAX_TORNADO_HEIGHT \<and> radius_seed quarter_particle \<le> 1"
    by (simp add: quarter_particle_def MAX_TORNADO_HEIGHT_eq)
  show ?thesis
    using r h project_size [of quarter_particle 180 480 558 4] by blast
qed

text \<open>
  The size is truncated, not rounded: at altitude 54 the height ratio is 0.1 and
  \<open>4 * 0.9 + 1 = 4.6\<close>; \<open>project\<close> returns size 4, and rounding gives 5.
\<close>

theorem project_size_round_counterexample:
  "project quarter_particle 180 = Inr (480, 558, 4)
   \<and> max 1 (round (4 * (1 - altitude quarter_particle / of_int MAX_TORNADO_HEIGHT) + 1)) = (5::int)"
proof -
  have v: "(4 * (1 - altitude quarter_particle / of_int MAX_TORNADO_HEIGHT) + 1) = (23/5::real)"
    by (simp add: quarter_particle_def MAX_TORNADO_HEIGHT_eq)
  have "round (23/5::real) = 5" by (simp add: round_def)
  then have "max 1 (round (4 * (1 - altitude quarter_particle / of_int MAX_TORNADO_HEIGHT) + 1)) = (5::int)"
    unfolding v by simp
  then show ?thesis using project_quarter by blast
qed

subsection \<open>Level selection\<close>

lemma level_names_init: "level_names (TornadoSimulator_init g) = map fst EF_LEVELS"
  by (simp add: TornadoSimulator_init_def split: prod.splits)

lemma level_index_init: "level_index (TornadoSimulator_init g) = 2"
  by (simp add: TornadoSimulator_init_def split: prod.splits)

text \<open>
  Claim C5. On a simulator whose level names are the six keys of \<open>EF_LEVELS\<close>, the
  "next level" keys (space and return) set the level index \<open>i\<close> to \<open>(i + 1) mod 6\<close>;
  from index 5 the new index is 0.
\<close>

theorem next_level_cyclic:
  assumes "level_names s = map fst EF_LEVELS"
  shows "handle_event (KEYDOWN K_SPACE) (running, s)
           = Inr (running, s\<lparr>level_index := (level_index s + 1) mod 6\<rparr>)
       \<and> handle_event (KEYDOWN K_RETURN) (running, s)
           = Inr (running, s\<lparr>level_index := (level_index s + 1) mod 6\<rparr>)
       \<and> (level_index s = 5 \<longrightarrow>
            handle_event (KEYDOWN K_SPACE) (running, s) = Inr (running, s\<lparr>level_index := 0\<rparr>))"
  using assms
  by (simp add: handle_event_def py_mod_def K_SPACE_def K_RETURN_def K_ESCAPE_def EF_LEVELS_def)

theorem next_level_cyclic_witness:
  "level_names (sample_sim\<lparr>level_index := 5\<rparr>) = map fst EF_LEVELS
   \<and> level_index (sample_sim\<lparr>level_index := 5\<rparr>) = 5
   \<and> handle_event (KEYDOWN K_SPACE) (True, sample_sim\<lparr>level_index := 5\<rparr>)
        = Inr (True, sample_sim\<lparr>level_index := 0\<rparr>)"
  using next_level_cyclic [of "sample_sim\<lparr>level_index := 5\<rparr>" True]
  by (simp add: sample_sim_def level_names_init)

text \<open>
  Claim C6, as amended. A digit key \<open>N\<close> with \<open>0 \<le> N \<le> 5\<close> sets the level index to
  \<open>min(N, 5) = N\<close>. A key code \<open>K_0 + N\<close> with \<open>N \<ge> 6\<close> passes none of the tests of the
  event loop: the level index is left as it is. No key makes the event loop raise.
\<close>

theorem select_level:
  assumes "level_names s = map fst EF_LEVELS"
  shows "(0 \<le> n \<and> n \<le> 5 \<longrightarrow>
            handle_event (KEYDOWN (K_0 + n)) (running, s) = Inr (running, s\<lparr>level_index := n\<rparr>))
       \<and> (6 \<le> m \<longrightarrow> handle_event (KEYDOWN (K_0 + m)) (running, s) = Inr (running, s))
       \<and> (\<exists>st. handle_event (KEYDOWN key) (running, s) = Inr st)"
  using assms
  by (auto simp add: handle_event_def py_mod_def K_SPACE_def K_RETURN_def K_ESCAPE_def K_0_def
      K_5_def EF_LEVELS_def)

theorem select_level_witness:
  "level_names sample_sim = map fst EF_LEVELS
   \<and> ((0::int) \<le> 4 \<and> (4::int) \<le> 5)
   \<and> handle_event (KEYDOWN (K_0 + 4)) (True, sample_sim) = Inr (True, sample_sim\<lparr>level_index := 4\<rparr>)
   \<and> (6::int) \<le> 7
   \<and> handle_event (KEYDOWN (K_0 + 7)) (True, sample_sim) = Inr (True, sample_sim)
   \<and> (\<exists>st. handle_event (KEYDOWN 1000) (True, sample_sim) = Inr st)"
  using select_level [of sample_sim 4 True 7 1000]
  by (simp add: sample_sim_def level_names_init)

text \<open>
  The key after \<open>5\<close> does not select level 5: on a new simulator (level index 2) the key
  code \<open>K_0 + 6\<close> leaves the simulator as it is.
\<close>

theorem select_level_6_counterexample:
  "handle_event (KEYDOWN (K_0 + 6)) (True, sample_sim) = Inr (True, sample_sim)
   \<and> level_index sample_sim = 2 \<and> level_index sample_sim \<noteq> 5"
  by (simp add: handle_event_def K_SPACE_def K_RETURN_def K_ESCAPE_def K_0_def K_5_def
      sample_sim_def level_index_init)

text \<open>
  Claim C10. A new simulator has level index 2, which names level EF2, and its current
  level has the parameters of EF2.
\<close>

theorem starts_at_EF2:
  "level_index (TornadoSimulator_init g) = 2
   \<and> list_get (level_names (TornadoSimulator_init g)) (level_index (TornadoSimulator_init g)) = Inr ''EF2''
   \<and> current_level (TornadoSimulator_init g)
        = Inr \<lparr>swirl = 2.2, lift = 200.0, base_radius = 180.0, debris = 0.26, color = (210, 220, 230)\<rparr>"
  by (simp add: current_level_def level_index_init level_names_init list_get_def dict_get_def EF_LEVELS_def)

subsection \<open>Rounding to doubles\<close>








subsection \<open>The debris sweep\<close>



lemma list_remove_first:
  assumes "\<forall>v \<in> set vs. \<not> same v" "same w"
  shows "list_remove same (vs @ w # ws) = Inr (vs @ ws)"
  using assms by (induction vs) simp_all

text \<open>
  The invariant of the sweep: the live list is the survivors of the part of the copy
  already visited, followed by the part still to visit.
\<close>

lemma sweep_from:
  assumes "distinct (kept @ rs)" and "\<forall>q \<in> set kept. \<not> expired (store q)"
  shows "sweep dt rs (kept @ rs, store) =
           Inr (kept @ filter (\<lambda>r. \<not> expired (Debris_update dt (store r))) rs,
                \<lambda>q. if q \<in> set rs then Debris_update dt (store q) else store q)"
  using assms
proof (induction rs arbitrary: kept store)
  case Nil
  show ?case by simp
next
  case (Cons r rs)
  define store1 where "store1 = store(r := Debris_update dt (store r))"
  have r_new: "r \<notin> set kept" "r \<notin> set rs" using Cons.prems(1) by auto
  have at_r: "store1 r = Debris_update dt (store r)" by (simp add: store1_def)
  have kept_old: "\<forall>q \<in> set kept. \<not> expired (store1 q)"
    using Cons.prems(2) r_new by (auto simp: store1_def)
  have tail: "(\<lambda>q. if q \<in> set rs then Debris_update dt (store1 q) else store1 q)
            = (\<lambda>q. if q \<in> set (r # rs) then Debris_update dt (store q) else store q)"
    using r_new by (auto simp: store1_def)
  have filt: "filter (\<lambda>q. \<not> expired (Debris_update dt (store1 q))) rs
            = filter (\<lambda>q. \<not> expired (Debris_update dt (store q))) rs"
    using r_new by (intro filter_cong) (auto simp: store1_def)
  have step: "sweep dt (r # rs) (kept @ r # rs, store) =
      (if expired (store1 r) then
         (case list_remove (same_debris store1 r) (kept @ r # rs) of
            Inl e \<Rightarrow> Inl e
          | Inr live1 \<Rightarrow> sweep dt rs (live1, store1))
       else sweep dt rs (kept @ r # rs, store1))"
    unfolding store1_def by (simp add: Let_def)
  show ?case
  proof (cases "expired (store1 r)")
    case True
    then have gone: "expired (Debris_update dt (store r))" by (simp add: at_r)
    have "\<forall>q \<in> set kept. \<not> same_debris store1 r q"
    proof
      fix q assume q: "q \<in> set kept"
      with r_new have "q \<noteq> r" by auto
      moreover from q kept_old have "\<not> expired (store1 q)" by simp
      with True have "store1 q \<noteq> store1 r" by auto
      ultimately show "\<not> same_debris store1 r q" by (simp add: same_debris_def)
    qed
    moreover have "same_debris store1 r r" by (simp add: same_debris_def)
    ultimately have rem: "list_remove (same_debris store1 r) (kept @ r # rs) = Inr (kept @ rs)"
      by (rule list_remove_first)
    have "sweep dt (r # rs) (kept @ r # rs, store) = sweep dt rs (kept @ rs, store1)"
      unfolding step using True rem by simp
    also have "\<dots> =
           Inr (kept @ filter (\<lambda>q. \<not> expired (Debris_update dt (store1 q))) rs,
                \<lambda>q. if q \<in> set rs then Debris_update dt (store1 q) else store1 q)"
    proof (rule Cons.IH)
      show "distinct (kept @ rs)" using Cons.prems(1) by simp
      show "\<forall>q \<in> set kept. \<not> expired (store1 q)" by (rule kept_old)
    qed
    also have "\<dots> =
           Inr (kept @ filter (\<lambda>q. \<not> expired (Debris_update dt (store q))) (r # rs),
                \<lambda>q. if q \<in> set (r # rs) then Debris_update dt (store q) else store q)"
      unfolding tail filt using gone by simp
    finally show ?thesis .
  next
    case False
    then have stays: "\<not> expired (Debris_update dt (store r))" by (simp add: at_r)
    have "sweep dt (r # rs) (kept @ r # rs, store) = sweep dt rs ((kept @ [r]) @ rs, store1)"
      unfolding step using False by simp
    also have "\<dots> =
           Inr ((kept @ [r]) @ filter (\<lambda>q. \<not> expired (Debris_update dt (store1 q))) rs,
                \<lambda>q. if q \<in> set rs then Debris_update dt (store1 q) else store1 q)"
    proof (rule Cons.IH)
      show "distinct ((kept @ [r]) @ rs)" using Cons.prems(1) by simp
      show "\<forall>q \<in> set (kept @ [r]). \<not> expired (store1 q)"
        using kept_old False by simp
    qed
    also have "\<dots> =
           Inr (kept @ filter (\<lambda>q. \<not> expired (Debris_update dt (store q))) (r # rs),
                \<lambda>q. if q \<in> set (r # rs) then Debris_update dt (store q) else store q)"
      unfolding tail filt using stays by simp
    finally show ?thesis .
  qed
qed

lemma sweep_all:
  assumes "distinct live"
  shows "sweep dt live (live, store) =
           Inr (filter (\<lambda>r. \<not> expired (Debris_update dt (store r))) live,
                \<lambda>q. if q \<in> set live then Debris_update dt (store q) else store q)"
  using sweep_from [of "[]" live store dt] assms by simp

lemma dict_get_key:
  assumes "k \<in> fst ` set d"
  shows "\<exists>v. dict_get d k = Inr v"
proof (cases "map_of d k")
  case None
  with assms show ?thesis by (simp add: map_of_eq_None_iff)
next
  case (Some v)
  then show ?thesis by (simp add: dict_get_def)
qed

lemma length_EF_LEVELS: "length EF_LEVELS = 6"
  by (simp add: EF_LEVELS_def)

lemma current_level_ok:
  assumes "level_ok s"
  shows "\<exists>lv. current_level s = Inr lv"
proof -
  from assms have n: "level_names s = map fst EF_LEVELS" and i: "0 \<le> level_index s" "level_index s < 6"
    by (simp_all add: level_ok_def)
  from i have len: "nat (level_index s) < length (map fst EF_LEVELS)"
    by (simp add: length_EF_LEVELS)
  then have "map fst EF_LEVELS ! nat (level_index s) \<in> set (map fst EF_LEVELS)"
    by (rule nth_mem)
  then have "\<exists>lv. dict_get EF_LEVELS (map fst EF_LEVELS ! nat (level_index s)) = Inr lv"
    by (intro dict_get_key) simp
  moreover have "list_get (level_names s) (level_index s) = Inr (map fst EF_LEVELS ! nat (level_index s))"
    using i n by (simp add: list_get_def length_EF_LEVELS)
  ultimately show ?thesis by (simp add: current_level_def)
qed

lemma maybe_spawn_debris:
  assumes "debris_ok s"
  shows "debris_ok (maybe_spawn rate s)"
    and "next_ref s \<le> next_ref (maybe_spawn rate s)"
    and "\<forall>q. q < next_ref s \<longrightarrow> debris_store (maybe_spawn rate s) q = debris_store s q"
    and "\<forall>q. q < next_ref s \<longrightarrow>
           (q \<in> set (debris_particles (maybe_spawn rate s)) \<longleftrightarrow> q \<in> set (debris_particles s))"
    and "level_names (maybe_spawn rate s) = level_names s"
    and "level_index (maybe_spawn rate s) = level_index s"
    and "particles (maybe_spawn rate s) = particles s"
  using assms
  by (auto simp add: maybe_spawn_def debris_ok_def random_random_def split: prod.splits)

lemma sweep_debris_ok:
  assumes "debris_ok s"
  shows "sweep_debris dt s =
           Inr (s\<lparr>debris_particles :=
                    filter (\<lambda>r. \<not> expired (Debris_update dt (debris_store s r))) (debris_particles s),
                  debris_store :=
                    (\<lambda>q. if q \<in> set (debris_particles s) then Debris_update dt (debris_store s q)
                         else debris_store s q)\<rparr>)"
proof -
  from assms have "distinct (debris_particles s)" by (simp add: debris_ok_def)
  then show ?thesis by (simp add: sweep_debris_def sweep_all)
qed

text \<open>What one call of \<open>update\<close> does to the debris that is live at the call.\<close>

lemma update_debris:
  assumes "debris_ok s" "level_ok s"
  shows "\<exists>s'. update dt s = Inr s' \<and> debris_ok s' \<and> level_ok s' \<and> next_ref s \<le> next_ref s'
           \<and> (\<forall>q. q < next_ref s \<longrightarrow>
                 (q \<in> set (debris_particles s') \<longleftrightarrow>
                    q \<in> set (debris_particles s) \<and> \<not> expired (Debris_update dt (debris_store s q))))
           \<and> (\<forall>q \<in> set (debris_particles s). debris_store s' q = Debris_update dt (debris_store s q))
           \<and> (\<forall>lv. current_level s = Inr lv \<longrightarrow>
                 particles s' = fst (update_particles dt (swirl lv) (lift lv) (base_radius lv)
                                       (particles s) (random_state s)))"
proof -
  from assms(2) obtain lv where lv: "current_level s = Inr lv" using current_level_ok by blast
  obtain ps g1 where up: "update_particles dt (swirl lv) (lift lv) (base_radius lv) (particles s) (random_state s) = (ps, g1)"
    by (cases "update_particles dt (swirl lv) (lift lv) (base_radius lv) (particles s) (random_state s)")
  define s1 where "s1 = s\<lparr>particles := ps, random_state := g1\<rparr>"
  define s2 where "s2 = maybe_spawn (debris lv) s1"
  define s3 where "s3 = s2\<lparr>debris_particles :=
                    filter (\<lambda>r. \<not> expired (Debris_update dt (debris_store s2 r))) (debris_particles s2),
                  debris_store :=
                    (\<lambda>q. if q \<in> set (debris_particles s2) then Debris_update dt (debris_store s2 q)
                         else debris_store s2 q)\<rparr>"
  have ok1: "debris_ok s1" using assms(1) by (simp add: s1_def debris_ok_def)
  note sp = maybe_spawn_debris [OF ok1, of "debris lv", folded s2_def]
  have s1_fields: "next_ref s1 = next_ref s" "debris_store s1 = debris_store s"
    "debris_particles s1 = debris_particles s" "level_names s1 = level_names s"
    "level_index s1 = level_index s"
    by (simp_all add: s1_def)
  have run: "update dt s = Inr s3"
    using lv up sweep_debris_ok [OF sp(1), of dt]
    by (simp add: update_def s1_def [symmetric] s2_def [symmetric] s3_def)
  have below: "\<forall>q \<in> set (debris_particles s). q < next_ref s"
    using assms(1) by (simp add: debris_ok_def)
  have "debris_ok s3"
    using sp(1) by (auto simp add: s3_def debris_ok_def)
  moreover have "level_ok s3"
    using assms(2) sp(5,6) by (simp add: s3_def level_ok_def s1_fields)
  moreover have "next_ref s \<le> next_ref s3"
    using sp(2) by (simp add: s3_def s1_fields)
  moreover have "\<forall>q. q < next_ref s \<longrightarrow>
                 (q \<in> set (debris_particles s3) \<longleftrightarrow>
                    q \<in> set (debris_particles s) \<and> \<not> expired (Debris_update dt (debris_store s q)))"
    using sp(3,4) by (auto simp add: s3_def s1_fields)
  moreover have "\<forall>q \<in> set (debris_particles s). debris_store s3 q = Debris_update dt (debris_store s q)"
    using sp(3,4) below by (auto simp add: s3_def s1_fields)
  moreover have "\<forall>lv. current_level s = Inr lv \<longrightarrow>
                 particles s3 = fst (update_particles dt (swirl lv) (lift lv) (base_radius lv)
                                       (particles s) (random_state s))"
    using lv up sp(7) by (simp add: s3_def s1_def)
  ultimately show ?thesis using run by blast
qed





































lemma spawn_kicked: "unit_draws kick_rng" "fst (Debris_spawn kick_rng) = kicked_debris"
proof -
  show "unit_draws kick_rng" by (simp add: unit_draws_def kick_rng_def)
  have "cos (math_tau * (1/4)) = 0" by (simp add: math_tau_def)
  then show "fst (Debris_spawn kick_rng) = kicked_debris"
    by (simp add: Debris_spawn_def random_uniform_eq kick_rng_def kicked_debris_def
        CENTER_X_eq GROUND_Y_eq)
qed


subsection \<open>One tick of the simulator\<close>

lemma update_particles_Cons:
  "update_particles dt sw lf br (p # ps) g =
     (fst (Particle_update dt sw lf br p g)
        # fst (update_particles dt sw lf br ps (snd (Particle_update dt sw lf br p g))),
      snd (update_particles dt sw lf br ps (snd (Particle_update dt sw lf br p g))))"
  by (simp add: case_prod_beta)

lemma update_particles_length:
  "length (fst (update_particles dt sw lf br ps g)) = length ps"
proof (induction ps arbitrary: g)
  case Nil
  show ?case by simp
next
  case (Cons p ps)
  show ?case unfolding update_particles_Cons by (simp add: Cons.IH)
qed

lemma update_particles_nth:
  assumes "i < length ps"
  shows "\<exists>g'. fst (update_particles dt sw lf br ps g) ! i = fst (Particle_update dt sw lf br (ps ! i) g')"
  using assms
proof (induction ps arbitrary: g i)
  case Nil
  then show ?case by simp
next
  case (Cons p ps)
  show ?case
  proof (cases i)
    case 0
    then show ?thesis unfolding update_particles_Cons by auto
  next
    case (Suc j)
    with Cons.prems have "j < length ps" by simp
    then obtain g' where
      "fst (update_particles dt sw lf br ps (snd (Particle_update dt sw lf br p g))) ! j
         = fst (Particle_update dt sw lf br (ps ! j) g')"
      using Cons.IH by blast
    with Suc show ?thesis unfolding update_particles_Cons by auto
  qed
qed

lemma current_level_2:
  assumes "level_names s = map fst EF_LEVELS" "level_index s = 2"
  shows "current_level s
           = Inr \<lparr>swirl = 2.2, lift = 200.0, base_radius = 180.0, debris = 0.26, color = (210, 220, 230)\<rparr>"
  using assms by (simp add: current_level_def list_get_def dict_get_def EF_LEVELS_def)

lemma random_particles_Suc:
  "random_particles (Suc n) g =
     (fst (Particle_random g) # fst (random_particles n (snd (Particle_random g))),
      snd (random_particles n (snd (Particle_random g))))"
  by (simp add: case_prod_beta)

lemma length_random_particles: "length (fst (random_particles n g)) = n"
proof (induction n arbitrary: g)
  case 0
  show ?case by simp
next
  case (Suc n)
  show ?case unfolding random_particles_Suc by (simp add: Suc.IH)
qed

lemma first_random_particle: "fst (random_particles (Suc n) g) ! 0 = fst (Particle_random g)"
  unfolding random_particles_Suc by simp

lemma particles_init:
  "particles (TornadoSimulator_init g) = fst (random_particles PARTICLES_PER_LEVEL g)"
  by (simp add: TornadoSimulator_init_def case_prod_beta)

lemma debris_ok_init: "debris_ok (TornadoSimulator_init g)"
  by (simp add: debris_ok_def TornadoSimulator_init_def split: prod.splits)

text \<open>
  Claim C3. An update that does not cross the wrap threshold adds
  \<open>swirl * dt * swirl_variation\<close> to the angle of the particle and
  \<open>lift * dt * (0.4 + 0.6 * radius_seed)\<close> to its altitude. In particular one call of
  \<open>update\<close> with \<open>dt = 1/60\<close> on a simulator at level EF2 returns, and adds
  \<open>2.2 * (1/60) * swirl_variation\<close> to the angle of every particle that does not wrap.
\<close>

theorem update_advances:
  assumes "altitude p + lf * dt * (0.4 + 0.6 * radius_seed p) \<le> of_int MAX_TORNADO_HEIGHT"
  shows "angle (fst (Particle_update dt sw lf br p g)) = angle p + sw * dt * swirl_variation p
       \<and> altitude (fst (Particle_update dt sw lf br p g))
           = altitude p + lf * dt * (0.4 + 0.6 * radius_seed p)
       \<and> (debris_ok s \<and> level_names s = map fst EF_LEVELS \<and> level_index s = 2
            \<and> i < length (particles s)
            \<and> altitude (particles s ! i) + 200 * (1/60) * (0.4 + 0.6 * radius_seed (particles s ! i))
                 \<le> of_int MAX_TORNADO_HEIGHT
          \<longrightarrow> (\<exists>s'. update (1/60) s = Inr s' \<and> length (particles s') = length (particles s)
                 \<and> angle (particles s' ! i)
                     = angle (particles s ! i) + 2.2 * (1/60) * swirl_variation (particles s ! i)))"
proof (intro conjI impI)
  show "angle (fst (Particle_update dt sw lf br p g)) = angle p + sw * dt * swirl_variation p"
    using assms by (simp add: Particle_update_no_wrap)
  show "altitude (fst (Particle_update dt sw lf br p g))
           = altitude p + lf * dt * (0.4 + 0.6 * radius_seed p)"
    using assms by (simp add: Particle_update_no_wrap)
next
  assume h: "debris_ok s \<and> level_names s = map fst EF_LEVELS \<and> level_index s = 2
            \<and> i < length (particles s)
            \<and> altitude (particles s ! i) + 200 * (1/60) * (0.4 + 0.6 * radius_seed (particles s ! i))
                 \<le> of_int MAX_TORNADO_HEIGHT"
  then have lv: "current_level s
           = Inr \<lparr>swirl = 2.2, lift = 200.0, base_radius = 180.0, debris = 0.26, color = (210, 220, 230)\<rparr>"
    by (simp add: current_level_2)
  from h have "level_ok s" by (simp add: level_ok_def)
  with h obtain s' where s': "update (1/60) s = Inr s'"
    "\<forall>lv. current_level s = Inr lv \<longrightarrow>
                 particles s' = fst (update_particles (1/60) (swirl lv) (lift lv) (base_radius lv)
                                       (particles s) (random_state s))"
    using update_debris [of s "1/60"] by blast
  from s'(2) lv have ps: "particles s' = fst (update_particles (1/60) 2.2 200 180 (particles s) (random_state s))"
    by simp
  from h obtain g' where "particles s' ! i = fst (Particle_update (1/60) 2.2 200 180 (particles s ! i) g')"
    unfolding ps using update_particles_nth [of i "particles s" "1/60" "2.2" 200 180 "random_state s"] by blast
  with h have "angle (particles s' ! i)
                     = angle (particles s ! i) + 2.2 * (1/60) * swirl_variation (particles s ! i)"
    by (simp add: Particle_update_no_wrap)
  moreover have "length (particles s') = length (particles s)"
    unfolding ps by (rule update_particles_length)
  ultimately show "\<exists>s'. update (1/60) s = Inr s' \<and> length (particles s') = length (particles s)
                 \<and> angle (particles s' ! i)
                     = angle (particles s ! i) + 2.2 * (1/60) * swirl_variation (particles s ! i)"
    using s'(1) by blast
qed

lemma sample_sim_first: "particles sample_sim ! 0 = fst (Particle_random (const_rng 0))"
proof -
  have n: "PARTICLES_PER_LEVEL = Suc 219" by (simp add: PARTICLES_PER_LEVEL_def)
  show ?thesis
    unfolding sample_sim_def particles_init n by (rule first_random_particle)
qed

lemma sample_sim_length: "length (particles sample_sim) = 220"
  by (simp only: sample_sim_def particles_init length_random_particles PARTICLES_PER_LEVEL_def)

theorem update_advances_witness:
  "altitude ground_particle + 360 * (1/60) * (0.4 + 0.6 * radius_seed ground_particle)
      \<le> of_int MAX_TORNADO_HEIGHT
   \<and> angle (fst (Particle_update (1/60) 4.5 360 280 ground_particle (const_rng 0)))
       = angle ground_particle + 4.5 * (1/60) * swirl_variation ground_particle
   \<and> altitude (fst (Particle_update (1/60) 4.5 360 280 ground_particle (const_rng 0)))
       = altitude ground_particle + 360 * (1/60) * (0.4 + 0.6 * radius_seed ground_particle)
   \<and> (debris_ok sample_sim \<and> level_names sample_sim = map fst EF_LEVELS \<and> level_index sample_sim = 2
        \<and> 0 < length (particles sample_sim)
        \<and> altitude (particles sample_sim ! 0)
             + 200 * (1/60) * (0.4 + 0.6 * radius_seed (particles sample_sim ! 0))
            \<le> of_int MAX_TORNADO_HEIGHT)
   \<and> (\<exists>s'. update (1/60) sample_sim = Inr s' \<and> length (particles s') = length (particles sample_sim)
          \<and> angle (particles s' ! 0)
              = angle (particles sample_sim ! 0) + 2.2 * (1/60) * swirl_variation (particles sample_sim ! 0))"
proof -
  have n: "altitude ground_particle + 360 * (1/60) * (0.4 + 0.6 * radius_seed ground_particle)
      \<le> of_int MAX_TORNADO_HEIGHT"
    by (simp add: ground_particle_def MAX_TORNADO_HEIGHT_eq)
  have h: "debris_ok sample_sim \<and> level_names sample_sim = map fst EF_LEVELS \<and> level_index sample_sim = 2
        \<and> 0 < length (particles sample_sim)
        \<and> altitude (particles sample_sim ! 0)
             + 200 * (1/60) * (0.4 + 0.6 * radius_seed (particles sample_sim ! 0))
            \<le> of_int MAX_TORNADO_HEIGHT"
    by (simp add: sample_sim_first sample_sim_length Particle_random_eq const_rng_def MAX_TORNADO_HEIGHT_eq)
       (simp add: sample_sim_def debris_ok_init level_names_init level_index_init)
  show ?thesis
    using n h update_advances [OF n, where sw = "4.5" and br = 280 and g = "const_rng 0"
        and s = sample_sim and i = 0]
    by blast
qed

subsection \<open>The wrap after a long frame\<close>

lemma random_particles_const: "snd (random_particles n (const_rng c)) = const_rng c"
proof (induction n)
  case 0
  show ?case by simp
next
  case (Suc n)
  have "snd (Particle_random (const_rng c)) = const_rng c"
    by (simp add: Particle_random_eq const_rng_def)
  then show ?case unfolding random_particles_Suc by (simp add: Suc.IH)
qed

lemma current_level_5:
  assumes "level_names s = map fst EF_LEVELS" "level_index s = 5"
  shows "current_level s
           = Inr \<lparr>swirl = 4.5, lift = 360.0, base_radius = 280.0, debris = 0.60, color = (255, 250, 220)\<rparr>"
  using assms by (simp add: current_level_def list_get_def dict_get_def EF_LEVELS_def)

lemma stalled_sim_fields:
  "particles stalled_sim = [low_particle]" "random_state stalled_sim = const_rng (1/2)"
  "level_names stalled_sim = map fst EF_LEVELS" "level_index stalled_sim = 5"
  "debris_ok stalled_sim" "level_ok stalled_sim"
proof -
  show "particles stalled_sim = [low_particle]" by (simp add: stalled_sim_def)
  show "random_state stalled_sim = const_rng (1/2)"
    using random_particles_const [of PARTICLES_PER_LEVEL "1/2"]
    by (simp add: stalled_sim_def TornadoSimulator_init_def case_prod_beta)
  show n: "level_names stalled_sim = map fst EF_LEVELS"
    by (simp add: stalled_sim_def level_names_init)
  show i: "level_index stalled_sim = 5" by (simp add: stalled_sim_def)
  show "debris_ok stalled_sim"
    using debris_ok_init [of "const_rng (1/2)"] by (simp add: stalled_sim_def debris_ok_def)
  show "level_ok stalled_sim" using n i by (simp add: level_ok_def)
qed

lemma long_step:
  "Particle_update 3 4.5 360 280 low_particle (const_rng (1/2)) = (escaped_particle, const_rng (1/2))"
proof -
  have "altitude low_particle + 360 * 3 * (0.4 + 0.6 * radius_seed low_particle)
          > of_int MAX_TORNADO_HEIGHT"
    by (simp add: low_particle_def MAX_TORNADO_HEIGHT_eq)
  then show ?thesis
    by (simp add: Particle_update_wrap)
       (simp add: low_particle_def escaped_particle_def const_rng_def math_tau_def MAX_TORNADO_HEIGHT_eq)
qed

text \<open>
  Claim C1, at the input where the code leaves the range. A particle at altitude 100 with
  radius seed 1 is in the column. One update at level EF5 with a time step of three
  seconds lifts it by 1080 to 1180; the wrap subtracts 540 once and leaves it at 640,
  above \<open>H_max = 540\<close>. \<open>TornadoSimulator.update\<close> returns a simulator with that particle,
  and \<open>project\<close> raises \<open>TypeError\<close> on it.
\<close>

theorem altitude_escapes_column:
  "0 \<le> altitude low_particle \<and> altitude low_particle \<le> of_int MAX_TORNADO_HEIGHT
   \<and> Particle_update 3 4.5 360 280 low_particle (const_rng (1/2)) = (escaped_particle, const_rng (1/2))
   \<and> altitude escaped_particle = 640
   \<and> of_int MAX_TORNADO_HEIGHT < altitude escaped_particle
   \<and> map_sum id particles (update 3 stalled_sim) = Inr [escaped_particle]
   \<and> project escaped_particle 280 = Inl TypeError"
proof -
  have lv: "current_level stalled_sim
           = Inr \<lparr>swirl = 4.5, lift = 360.0, base_radius = 280.0, debris = 0.60, color = (255, 250, 220)\<rparr>"
    using stalled_sim_fields(3,4) by (rule current_level_5)
  from update_debris [OF stalled_sim_fields(5,6), of 3] obtain s' where
    s': "update 3 stalled_sim = Inr s'"
      "\<forall>lv. current_level stalled_sim = Inr lv \<longrightarrow>
                 particles s' = fst (update_particles 3 (swirl lv) (lift lv) (base_radius lv)
                                       (particles stalled_sim) (random_state stalled_sim))"
    by blast
  from s'(2) lv have "particles s' = fst (update_particles 3 4.5 360 280 [low_particle] (const_rng (1/2)))"
    by (simp add: stalled_sim_fields)
  then have "particles s' = [escaped_particle]"
    using long_step by simp
  with s'(1) have sim: "map_sum id particles (update 3 stalled_sim) = Inr [escaped_particle]"
    by simp
  have above: "of_int MAX_TORNADO_HEIGHT < altitude escaped_particle"
    by (simp add: escaped_particle_def MAX_TORNADO_HEIGHT_eq)
  then have "project escaped_particle 280 = Inl TypeError"
    by (rule project_above_column) (simp_all add: escaped_particle_def)
  moreover have "0 \<le> altitude low_particle \<and> altitude low_particle \<le> of_int MAX_TORNADO_HEIGHT"
    by (simp add: low_particle_def MAX_TORNADO_HEIGHT_eq)
  moreover have "altitude escaped_particle = 640" by (simp add: escaped_particle_def)
  ultimately show ?thesis using long_step sim above by blast
qed


end
